theory Spec2Isabelle
  imports Main "HOL-Library.Monad_Syntax"
begin

section \<open>Values on the wire\<close>

text \<open>
  An instant as \<open>datetime.now()\<close> returns it. Only equality of instants matters here;
  their ISO-8601 rendering belongs to the libraries and is a parameter below.
\<close>

type_synonym datetime = nat

text \<open>
  The Python values that \<open>request.json()\<close> returns and that \<open>model_dump()\<close> builds:
  JSON values (numbers restricted to integers), plus the \<open>datetime\<close> objects that a
  dump in Python mode still holds before \<open>jsonable_encoder\<close> renders them. A dict is
  an association list; a key is looked up with \<open>map_of\<close>.
\<close>

datatype json =
    JNull
  | JBool bool
  | JInt int
  | JStr string
  | JList "json list"
  | JDict "(string \<times> json) list"
  | JDatetime datetime

section \<open>models/task.py\<close>

text \<open>\<open>role: Literal["user", "agent"]\<close>\<close>

datatype role = User | Agent

text \<open>\<open>class TextPart\<close>: the field \<open>type\<close> is the constant \<open>"text"\<close>.\<close>

datatype TextPart = TextPart (part_text: string)

datatype Message = Message (msg_role: role) (msg_parts: "TextPart list")

record TaskStatus =
  state :: string
  timestamp :: datetime

text \<open>
  \<open>class Task\<close>, as a value: what a reader of a Task object sees when it follows the
  object's fields. The object itself lives in the memory below.
\<close>

record Task =
  task_id :: string
  status :: TaskStatus
  history :: "Message list"

record TaskQueryParams =
  qp_id :: string
  qp_metadata :: "(string \<times> json) list option"
  qp_historyLength :: "int option"

record TaskSendParams =
  sp_id :: string
  session_id :: string
  message :: Message
  sp_historyLength :: "int option"
  sp_metadata :: "(string \<times> json) list option"

text \<open>\<open>class TaskState(str, Enum)\<close>: the values of the members.\<close>

definition TaskState_SUBMITTED :: string where "TaskState_SUBMITTED = ''submitted''"
definition TaskState_WORKING :: string where "TaskState_WORKING = ''working''"
definition TaskState_INPUT_REQUIRED :: string where "TaskState_INPUT_REQUIRED = ''input-required''"
definition TaskState_COMPLETED :: string where "TaskState_COMPLETED = ''completed''"
definition TaskState_CANCELED :: string where "TaskState_CANCELED = ''canceled''"
definition TaskState_FAILED :: string where "TaskState_FAILED = ''failed''"
definition TaskState_UNKNOWN :: string where "TaskState_UNKNOWN = ''unknown''"

subsection \<open>Validation and dump of the task models\<close>

text \<open>
  Validators follow the declared field types: a field without a default is required, a
  key that no field declares is ignored. The coercions that the validation library adds
  in its lax mode (numeric strings, floats and booleans read as integers, integers read
  as instants) are not modelled; such inputs are rejected here. A validator returns None
  where the library raises its ValidationError.
\<close>

definition str_field :: "(string \<times> json) list \<Rightarrow> string \<Rightarrow> string option" where
  "str_field d k = (case map_of d k of Some (JStr v) \<Rightarrow> Some v | _ \<Rightarrow> None)"

text \<open>A field \<open>k: Literal[v] = v\<close>.\<close>

definition literal_field :: "(string \<times> json) list \<Rightarrow> string \<Rightarrow> string \<Rightarrow> unit option" where
  "literal_field d k v =
     (case map_of d k of
        None \<Rightarrow> Some ()
      | Some (JStr w) \<Rightarrow> if w = v then Some () else None
      | Some _ \<Rightarrow> None)"

text \<open>A field \<open>k: int | None = None\<close>.\<close>

definition opt_int_field :: "(string \<times> json) list \<Rightarrow> string \<Rightarrow> int option option" where
  "opt_int_field d k =
     (case map_of d k of
        None \<Rightarrow> Some None
      | Some JNull \<Rightarrow> Some None
      | Some (JInt n) \<Rightarrow> Some (Some n)
      | Some _ \<Rightarrow> None)"

text \<open>A field \<open>k: dict[str, Any] | None = None\<close>.\<close>

definition opt_dict_field ::
  "(string \<times> json) list \<Rightarrow> string \<Rightarrow> (string \<times> json) list option option" where
  "opt_dict_field d k =
     (case map_of d k of
        None \<Rightarrow> Some None
      | Some JNull \<Rightarrow> Some None
      | Some (JDict kv) \<Rightarrow> Some (Some kv)
      | Some _ \<Rightarrow> None)"

definition list_validate :: "(json \<Rightarrow> 'a option) \<Rightarrow> json \<Rightarrow> 'a list option" where
  "list_validate f j = (case j of JList xs \<Rightarrow> those (map f xs) | _ \<Rightarrow> None)"

definition role_validate :: "json \<Rightarrow> role option" where
  "role_validate j =
     (case j of
        JStr v \<Rightarrow> if v = ''user'' then Some User else if v = ''agent'' then Some Agent else None
      | _ \<Rightarrow> None)"

definition TextPart_validate :: "json \<Rightarrow> TextPart option" where
  "TextPart_validate j =
     (case j of
        JDict d \<Rightarrow> do { literal_field d ''type'' ''text''; t \<leftarrow> str_field d ''text''; Some (TextPart t) }
      | _ \<Rightarrow> None)"

definition Message_validate :: "json \<Rightarrow> Message option" where
  "Message_validate j =
     (case j of
        JDict d \<Rightarrow>
          do {
            r \<leftarrow> Option.bind (map_of d ''role'') role_validate;
            ps \<leftarrow> Option.bind (map_of d ''parts'') (list_validate TextPart_validate);
            Some (Message r ps)
          }
      | _ \<Rightarrow> None)"

text \<open>
  A \<open>datetime\<close> field takes a datetime object as it is and reads a string with the
  library's ISO-8601 parser, the parameter \<open>parse\<close>.
\<close>

definition datetime_validate :: "(string \<Rightarrow> datetime option) \<Rightarrow> json \<Rightarrow> datetime option" where
  "datetime_validate parse j = (case j of JDatetime t \<Rightarrow> Some t | JStr v \<Rightarrow> parse v | _ \<Rightarrow> None)"

text \<open>\<open>timestamp\<close> defaults to \<open>datetime.now()\<close>, the parameter \<open>now\<close>.\<close>

definition TaskStatus_validate ::
  "(string \<Rightarrow> datetime option) \<Rightarrow> datetime \<Rightarrow> json \<Rightarrow> TaskStatus option" where
  "TaskStatus_validate parse now j =
     (case j of
        JDict d \<Rightarrow>
          do {
            st \<leftarrow> str_field d ''state'';
            ts \<leftarrow> (case map_of d ''timestamp'' of
                      None \<Rightarrow> Some now
                    | Some v \<Rightarrow> datetime_validate parse v);
            Some \<lparr>state = st, timestamp = ts\<rparr>
          }
      | _ \<Rightarrow> None)"

definition Task_validate :: "(string \<Rightarrow> datetime option) \<Rightarrow> datetime \<Rightarrow> json \<Rightarrow> Task option" where
  "Task_validate parse now j =
     (case j of
        JDict d \<Rightarrow>
          do {
            i \<leftarrow> str_field d ''id'';
            st \<leftarrow> Option.bind (map_of d ''status'') (TaskStatus_validate parse now);
            h \<leftarrow> Option.bind (map_of d ''history'') (list_validate Message_validate);
            Some \<lparr>task_id = i, status = st, history = h\<rparr>
          }
      | _ \<Rightarrow> None)"

definition TaskQueryParams_validate :: "json \<Rightarrow> TaskQueryParams option" where
  "TaskQueryParams_validate j =
     (case j of
        JDict d \<Rightarrow>
          do {
            i \<leftarrow> str_field d ''id'';
            md \<leftarrow> opt_dict_field d ''metadata'';
            hl \<leftarrow> opt_int_field d ''historyLength'';
            Some \<lparr>qp_id = i, qp_metadata = md, qp_historyLength = hl\<rparr>
          }
      | _ \<Rightarrow> None)"

text \<open>\<open>session_id\<close> defaults to \<open>uuid4().hex\<close>, the parameter \<open>uuid\<close>.\<close>

definition TaskSendParams_validate :: "string \<Rightarrow> json \<Rightarrow> TaskSendParams option" where
  "TaskSendParams_validate uuid j =
     (case j of
        JDict d \<Rightarrow>
          do {
            i \<leftarrow> str_field d ''id'';
            ss \<leftarrow> (case map_of d ''session_id'' of
                      None \<Rightarrow> Some uuid
                    | Some (JStr v) \<Rightarrow> Some v
                    | Some _ \<Rightarrow> None);
            m \<leftarrow> Option.bind (map_of d ''message'') Message_validate;
            hl \<leftarrow> opt_int_field d ''historyLength'';
            md \<leftarrow> opt_dict_field d ''metadata'';
            Some \<lparr>sp_id = i, session_id = ss, message = m, sp_historyLength = hl, sp_metadata = md\<rparr>
          }
      | _ \<Rightarrow> None)"

text \<open>
  \<open>model_dump()\<close> in Python mode: the fields in the order of their declaration, a
  datetime still an object.
\<close>

definition role_dump :: "role \<Rightarrow> json" where
  "role_dump r = JStr (case r of User \<Rightarrow> ''user'' | Agent \<Rightarrow> ''agent'')"

definition TextPart_dump :: "TextPart \<Rightarrow> json" where
  "TextPart_dump p = JDict [(''type'', JStr ''text''), (''text'', JStr (part_text p))]"

definition Message_dump :: "Message \<Rightarrow> json" where
  "Message_dump m =
     JDict [(''role'', role_dump (msg_role m)), (''parts'', JList (map TextPart_dump (msg_parts m)))]"

definition TaskStatus_dump :: "TaskStatus \<Rightarrow> json" where
  "TaskStatus_dump st = JDict [(''state'', JStr (state st)), (''timestamp'', JDatetime (timestamp st))]"

definition Task_dump :: "Task \<Rightarrow> json" where
  "Task_dump t =
     JDict [(''id'', JStr (task_id t)), (''status'', TaskStatus_dump (status t)),
            (''history'', JList (map Message_dump (history t)))]"

definition opt_dump :: "('a \<Rightarrow> json) \<Rightarrow> 'a option \<Rightarrow> json" where
  "opt_dump f x = (case x of None \<Rightarrow> JNull | Some v \<Rightarrow> f v)"

definition TaskQueryParams_dump :: "TaskQueryParams \<Rightarrow> json" where
  "TaskQueryParams_dump q =
     JDict [(''id'', JStr (qp_id q)), (''metadata'', opt_dump JDict (qp_metadata q)),
            (''historyLength'', opt_dump JInt (qp_historyLength q))]"

definition TaskSendParams_dump :: "TaskSendParams \<Rightarrow> json" where
  "TaskSendParams_dump p =
     JDict [(''id'', JStr (sp_id p)), (''session_id'', JStr (session_id p)),
            (''message'', Message_dump (message p)),
            (''historyLength'', opt_dump JInt (sp_historyLength p)),
            (''metadata'', opt_dump JDict (sp_metadata p))]"

section \<open>Exceptions\<close>

datatype exn =
    JSONDecodeError
  | ValidationError
  | ValueError string
  | IndexError string
  | AttributeError string
  | KeyError string
  | TypeError string
  | AgentFailure string

text \<open>\<open>str(e)\<close>. The texts of the libraries' exceptions are abbreviated.\<close>

fun exn_str :: "exn \<Rightarrow> string" where
  "exn_str JSONDecodeError = ''Expecting value''"
| "exn_str ValidationError = ''validation error''"
| "exn_str (ValueError m) = m"
| "exn_str (IndexError m) = m"
| "exn_str (AttributeError m) = m"
| "exn_str (KeyError m) = m"
| "exn_str (TypeError m) = m"
| "exn_str (AgentFailure m) = m"

section \<open>The memory of the process\<close>

text \<open>
  Task objects and list objects are mutable and shared by reference, so they live at
  addresses. \<open>tasks\<close> is the dict \<open>self.tasks\<close> of the task manager; it holds references.
  A Message, a TextPart and a TaskStatus are never mutated after construction (a status
  is replaced as a whole), so they are values. A new object takes the next free address.
  The lock is not modelled: each operation below is one locked section and runs as a unit.
\<close>

type_synonym addr = nat

record Task_obj =
  obj_id :: string
  obj_status :: TaskStatus
  obj_history :: addr

record memory =
  tasks :: "string \<rightharpoonup> addr"
  objs :: "addr \<Rightarrow> Task_obj"
  lists :: "addr \<Rightarrow> Message list"
  next_obj :: addr
  next_list :: addr

definition init_memory :: memory where
  "init_memory =
     \<lparr>tasks = Map.empty,
      objs = (\<lambda>_. \<lparr>obj_id = [], obj_status = \<lparr>state = [], timestamp = 0\<rparr>, obj_history = 0\<rparr>),
      lists = (\<lambda>_. []), next_obj = 0, next_list = 0\<rparr>"

text \<open>What the Task object at an address shows to whoever holds the reference.\<close>

definition task_at :: "memory \<Rightarrow> addr \<Rightarrow> Task" where
  "task_at s a =
     \<lparr>task_id = obj_id (objs s a), status = obj_status (objs s a),
      history = lists s (obj_history (objs s a))\<rparr>"

text \<open>The task stored under an id, if any.\<close>

definition stored :: "memory \<Rightarrow> string \<Rightarrow> Task option" where
  "stored s i = map_option (task_at s) (tasks s i)"

section \<open>agent/agent.py: RedditAgent.invoke\<close>

text \<open>
  The runner of the agent framework is external: what it does for a query and a session
  is a parameter (the session lookup before it is part of that). It either raises or
  yields events; the content of an event, the parts of a content and the text of a part
  may each be None.
\<close>

datatype part = Part (text_of: "string option")
datatype content = Content (parts_of: "part list option")
datatype event = Event (content_of: "content option")
datatype run_outcome = RunRaises exn | RunEvents "event list"

text \<open>\<open>sep.join(xs)\<close>\<close>

fun join :: "string \<Rightarrow> string list \<Rightarrow> string" where
  "join sep [] = []"
| "join sep [x] = x"
| "join sep (x # y # ys) = x @ sep @ join sep (y # ys)"

text \<open>\<open>[part.text for part in parts if part.text]\<close>: a text that is None or empty is dropped.\<close>

fun texts :: "part list \<Rightarrow> string list" where
  "texts [] = []"
| "texts (Part None # ps) = texts ps"
| "texts (Part (Some t) # ps) = (if t = [] then texts ps else t # texts ps)"

definition invoke :: "(string \<Rightarrow> string \<Rightarrow> run_outcome) \<Rightarrow> string \<Rightarrow> string \<Rightarrow> exn + string" where
  "invoke run query session =
     (case run query session of
        RunRaises e \<Rightarrow> Inl e
      | RunEvents events \<Rightarrow>
          (if events = [] then Inr ''No response from agent''
           else case content_of (last events) of
                  None \<Rightarrow> Inr ''No response from agent''
                | Some c \<Rightarrow>
                    (case parts_of c of
                       None \<Rightarrow> Inr ''No response from agent''
                     | Some ps \<Rightarrow>
                         (if ps = [] then Inr ''No response from agent''
                          else Inr (join [CHR 0x0A] (texts ps))))))"

section \<open>The environment of a call\<close>

text \<open>
  What one call draws from outside the program: the clock at the two places a TaskStatus
  is built, the \<open>uuid4().hex\<close> default of each id field, and the agent's runner.
\<close>

record env =
  now_submitted :: datetime
  now_completed :: datetime
  uuid_request_id :: string
  uuid_session_id :: string
  uuid_response_id :: string
  agent_run :: "string \<Rightarrow> string \<Rightarrow> run_outcome"

section \<open>models/json\_rpc.py and models/request.py\<close>

text \<open>\<open>id: int | str | None\<close>\<close>

datatype rpc_id = IdInt int | IdStr string | IdNone

record JSONRPCError =
  code :: int
  err_message :: string
  data :: "json option"

text \<open>
  \<open>class JSONRPCResponse\<close> and its subclasses \<open>SendTaskResponse\<close> and
  \<open>GetTaskResponse\<close>, which declare the same fields. \<open>jsonrpc\<close> is the constant
  \<open>"2.0"\<close>. A result is a reference to a Task object.
\<close>

record JSONRPCResponse =
  resp_id :: rpc_id
  result :: "addr option"
  error :: "JSONRPCError option"

text \<open>\<open>class InternalError(JSONRPCError)\<close> with a message given.\<close>

definition InternalError :: "string \<Rightarrow> JSONRPCError" where
  "InternalError m = \<lparr>code = - 32603, err_message = m, data = None\<rparr>"

record SendTaskRequest =
  sr_id :: rpc_id
  sr_params :: TaskSendParams

record GetTaskRequest =
  gr_id :: rpc_id
  gr_params :: TaskQueryParams

text \<open>
  Validation of a dict against \<open>class JSONRPCError\<close>: \<open>code: int\<close> and
  \<open>message: str\<close> have no default, so they are required; \<open>data\<close> defaults to None.
\<close>

definition JSONRPCError_validate :: "json \<Rightarrow> JSONRPCError option" where
  "JSONRPCError_validate j =
     (case j of
        JDict d \<Rightarrow>
          do {
            c \<leftarrow> (case map_of d ''code'' of Some (JInt n) \<Rightarrow> Some n | _ \<Rightarrow> None);
            m \<leftarrow> (case map_of d ''message'' of Some (JStr m) \<Rightarrow> Some m | _ \<Rightarrow> None);
            Some \<lparr>code = c, err_message = m,
                  data = (case map_of d ''data'' of
                            None \<Rightarrow> None | Some JNull \<Rightarrow> None | Some v \<Rightarrow> Some v)\<rparr>
          }
      | _ \<Rightarrow> None)"

text \<open>
  \<open>GetTaskResponse(id=..., result=..., error=...)\<close> with the error given as a dict:
  the constructor validates the dict against \<open>JSONRPCError\<close> and raises when it does
  not fit.
\<close>

definition GetTaskResponse :: "rpc_id \<Rightarrow> addr option \<Rightarrow> json option \<Rightarrow> exn + JSONRPCResponse" where
  "GetTaskResponse i res err =
     (case err of
        None \<Rightarrow> Inr \<lparr>resp_id = i, result = res, error = None\<rparr>
      | Some j \<Rightarrow>
          (case JSONRPCError_validate j of
             None \<Rightarrow> Inl ValidationError
           | Some e \<Rightarrow> Inr \<lparr>resp_id = i, result = res, error = Some e\<rparr>))"

text \<open>
  \<open>A2ARequest\<close>: the union of the two request classes, discriminated by \<open>method\<close>.
  \<open>jsonrpc\<close> must be \<open>"2.0"\<close> where given; \<open>id\<close> defaults to \<open>uuid4().hex\<close>;
  \<open>params\<close> is required by both classes.
\<close>

datatype A2ARequest = SendTask SendTaskRequest | GetTask GetTaskRequest

definition rpc_id_validate :: "string \<Rightarrow> (string \<times> json) list \<Rightarrow> rpc_id option" where
  "rpc_id_validate uuid d =
     (case map_of d ''id'' of
        None \<Rightarrow> Some (IdStr uuid)
      | Some JNull \<Rightarrow> Some IdNone
      | Some (JInt n) \<Rightarrow> Some (IdInt n)
      | Some (JStr v) \<Rightarrow> Some (IdStr v)
      | Some _ \<Rightarrow> None)"

definition SendTaskRequest_validate :: "env \<Rightarrow> (string \<times> json) list \<Rightarrow> SendTaskRequest option" where
  "SendTaskRequest_validate e d =
     do {
       literal_field d ''jsonrpc'' ''2.0'';
       i \<leftarrow> rpc_id_validate (uuid_request_id e) d;
       literal_field d ''method'' ''tasks/send'';
       p \<leftarrow> Option.bind (map_of d ''params'') (TaskSendParams_validate (uuid_session_id e));
       Some \<lparr>sr_id = i, sr_params = p\<rparr>
     }"

definition GetTaskRequest_validate :: "env \<Rightarrow> (string \<times> json) list \<Rightarrow> GetTaskRequest option" where
  "GetTaskRequest_validate e d =
     do {
       literal_field d ''jsonrpc'' ''2.0'';
       i \<leftarrow> rpc_id_validate (uuid_request_id e) d;
       literal_field d ''method'' ''tasks/get'';
       p \<leftarrow> Option.bind (map_of d ''params'') TaskQueryParams_validate;
       Some \<lparr>gr_id = i, gr_params = p\<rparr>
     }"

text \<open>\<open>A2ARequest.validate_python(body)\<close>\<close>

definition A2ARequest_validate :: "env \<Rightarrow> json \<Rightarrow> A2ARequest option" where
  "A2ARequest_validate e body =
     (case body of
        JDict d \<Rightarrow>
          (case map_of d ''method'' of
             Some (JStr m) \<Rightarrow>
               if m = ''tasks/send'' then map_option SendTask (SendTaskRequest_validate e d)
               else if m = ''tasks/get'' then map_option GetTask (GetTaskRequest_validate e d)
               else None
           | _ \<Rightarrow> None)
      | _ \<Rightarrow> None)"

definition rpc_id_dump :: "rpc_id \<Rightarrow> json" where
  "rpc_id_dump i = (case i of IdInt n \<Rightarrow> JInt n | IdStr v \<Rightarrow> JStr v | IdNone \<Rightarrow> JNull)"

text \<open>\<open>request.model_dump()\<close>, as the client posts it.\<close>

definition SendTaskRequest_dump :: "SendTaskRequest \<Rightarrow> json" where
  "SendTaskRequest_dump r =
     JDict [(''jsonrpc'', JStr ''2.0''), (''id'', rpc_id_dump (sr_id r)),
            (''method'', JStr ''tasks/send''), (''params'', TaskSendParams_dump (sr_params r))]"

definition GetTaskRequest_dump :: "GetTaskRequest \<Rightarrow> json" where
  "GetTaskRequest_dump r =
     JDict [(''jsonrpc'', JStr ''2.0''), (''id'', rpc_id_dump (gr_id r)),
            (''method'', JStr ''tasks/get''), (''params'', TaskQueryParams_dump (gr_params r))]"

definition JSONRPCError_dump :: "JSONRPCError \<Rightarrow> json" where
  "JSONRPCError_dump x =
     JDict [(''code'', JInt (code x)), (''message'', JStr (err_message x)),
            (''data'', opt_dump (\<lambda>v. v) (data x))]"

text \<open>
  \<open>response.model_dump()\<close>: every field, None included. The result is read through
  its reference in the memory \<open>s\<close>.
\<close>

definition JSONRPCResponse_dump :: "memory \<Rightarrow> JSONRPCResponse \<Rightarrow> json" where
  "JSONRPCResponse_dump s r =
     JDict [(''jsonrpc'', JStr ''2.0''), (''id'', rpc_id_dump (resp_id r)),
            (''result'', opt_dump (\<lambda>a. Task_dump (task_at s a)) (result r)),
            (''error'', opt_dump JSONRPCError_dump (error r))]"

text \<open>\<open>response.model_dump(exclude_none=True)\<close>: a field that is None is left out.\<close>

definition JSONRPCResponse_dump_exclude_none :: "memory \<Rightarrow> JSONRPCResponse \<Rightarrow> json" where
  "JSONRPCResponse_dump_exclude_none s r =
     JDict ([(''jsonrpc'', JStr ''2.0'')] @
            (case resp_id r of IdNone \<Rightarrow> [] | i \<Rightarrow> [(''id'', rpc_id_dump i)]) @
            (case result r of None \<Rightarrow> [] | Some a \<Rightarrow> [(''result'', Task_dump (task_at s a))]) @
            (case error r of
               None \<Rightarrow> []
             | Some x \<Rightarrow>
                 [(''error'',
                   JDict ([(''code'', JInt (code x)), (''message'', JStr (err_message x))] @
                          (case data x of None \<Rightarrow> [] | Some v \<Rightarrow> [(''data'', v)])))]))"

section \<open>logging\<close>

text \<open>
  A call \<open>logger.name(...)\<close> of the program on its \<open>logging.Logger\<close>. The methods of
  a Logger that emit a record are listed; a call of one of them returns None and touches
  nothing that is modelled. A name that is no attribute of Logger at all, as
  \<open>errorr\<close>, raises AttributeError when it is read, before any argument is evaluated
  (the message is kept without its quotation marks). The program calls nothing else on
  its logger.
\<close>

definition Logger_methods :: "string list" where
  "Logger_methods =
     [''debug'', ''info'', ''warning'', ''warn'', ''error'', ''exception'', ''critical'',
      ''fatal'', ''log'']"

definition logger_call :: "string \<Rightarrow> exn + unit" where
  "logger_call name =
     (if name \<in> set Logger_methods then Inr ()
      else Inl (AttributeError (''Logger object has no attribute '' @ name)))"

section \<open>server/task\_manager.py: InMemoryTaskManager\<close>

text \<open>
  \<open>upsert_task\<close>. \<open>Task(...)\<close> validates its arguments into a new object with a new
  history list; \<open>TaskStatus(...)\<close> reads the clock (\<open>now\<close>). The existing branch appends
  to the list object of the stored task in place. The reference is returned.
\<close>

definition upsert_task :: "TaskSendParams \<Rightarrow> datetime \<Rightarrow> memory \<Rightarrow> addr \<times> memory" where
  "upsert_task params now s =
     (case tasks s (sp_id params) of
        None \<Rightarrow>
          (let l = next_list s; a = next_obj s in
           (a, s\<lparr>lists := (lists s)(l := [message params]),
                 next_list := Suc l,
                 objs := (objs s)(a := \<lparr>obj_id = sp_id params,
                                        obj_status = \<lparr>state = TaskState_SUBMITTED, timestamp = now\<rparr>,
                                        obj_history = l\<rparr>),
                 next_obj := Suc a,
                 tasks := (tasks s)(sp_id params \<mapsto> a)\<rparr>))
      | Some a \<Rightarrow>
          (a, s\<lparr>lists := (lists s)(obj_history (objs s a) :=
                                     lists s (obj_history (objs s a)) @ [message params])\<rparr>))"

text \<open>
  The slice \<open>xs[start:]\<close>: a negative start counts from the end and is clamped at the
  front; a start beyond the end gives the empty list.
\<close>

definition slice_from :: "int \<Rightarrow> 'a list \<Rightarrow> 'a list" where
  "slice_from start xs =
     (let n = int (length xs);
          i = (if start < 0 then max 0 (start + n) else min start n)
      in drop (nat i) xs)"

text \<open>
  \<open>on_get_task\<close>. \<open>if not task\<close> is the test for None (a Task object is never falsy).
  \<open>model_copy()\<close> is a shallow copy: a new Task object with the fields of the stored
  one, so with the same history list. With a \<open>historyLength\<close> the copy's \<open>history\<close>
  is set to a slice, which is a new list; without one it is set to itself.
\<close>

definition on_get_task :: "GetTaskRequest \<Rightarrow> memory \<Rightarrow> (exn + JSONRPCResponse) \<times> memory" where
  "on_get_task request s =
     (let query = gr_params request in
      case tasks s (qp_id query) of
        None \<Rightarrow>
          (GetTaskResponse (gr_id request) None
             (Some (JDict [(''message'', JStr ''Task not found'')])), s)
      | Some a \<Rightarrow>
          (let c = next_obj s;
               s1 = s\<lparr>objs := (objs s)(c := objs s a), next_obj := Suc c\<rparr>;
               s2 = (case qp_historyLength query of
                       Some n \<Rightarrow>
                         (let l = next_list s1 in
                          s1\<lparr>lists := (lists s1)(l := slice_from (- n) (lists s1 (obj_history (objs s1 c)))),
                             next_list := Suc l,
                             objs := (objs s1)(c := (objs s1 c)\<lparr>obj_history := l\<rparr>)\<rparr>)
                     | None \<Rightarrow>
                         s1\<lparr>objs := (objs s1)(c := (objs s1 c)\<lparr>obj_history := obj_history (objs s1 c)\<rparr>)\<rparr>)
           in (GetTaskResponse (gr_id request) (Some c) None, s2)))"

section \<open>agent/task\_manager.py: RedditAgentTaskManager\<close>

text \<open>\<open>_get_user_query\<close>: \<open>parts[0]\<close> raises IndexError on an empty list.\<close>

definition get_user_query :: "SendTaskRequest \<Rightarrow> exn + string" where
  "get_user_query request =
     (case msg_parts (message (sr_params request)) of
        [] \<Rightarrow> Inl (IndexError ''list index out of range'')
      | p # _ \<Rightarrow> Inr (part_text p))"

text \<open>
  Step 4 of \<open>on_send_task\<close>, the block under the lock: through the reference that
  \<open>upsert_task\<close> returned, the status is replaced and the reply appended in place.
\<close>

definition save_response :: "addr \<Rightarrow> Message \<Rightarrow> datetime \<Rightarrow> memory \<Rightarrow> memory" where
  "save_response a agent_response now s =
     (let s1 = s\<lparr>objs := (objs s)(a := (objs s a)\<lparr>obj_status := \<lparr>state = ''COMPLETED'', timestamp = now\<rparr>\<rparr>)\<rparr>
      in s1\<lparr>lists := (lists s1)(obj_history (objs s1 a) :=
                                  lists s1 (obj_history (objs s1 a)) @ [agent_response])\<rparr>)"

text \<open>
  \<open>on_send_task\<close>, run without another call in between. An exception of the query
  extraction or of the agent leaves the function after \<open>upsert_task\<close> has run. The
  reply is logged with \<open>logger.info\<close>. The response takes a new uuid as its id and
  holds the reference to the stored task.
\<close>

definition on_send_task :: "env \<Rightarrow> SendTaskRequest \<Rightarrow> memory \<Rightarrow> (exn + JSONRPCResponse) \<times> memory" where
  "on_send_task e request s =
     (let (task, s1) = upsert_task (sr_params request) (now_submitted e) s in
      case get_user_query request of
        Inl x \<Rightarrow> (Inl x, s1)
      | Inr query \<Rightarrow>
          (case invoke (agent_run e) query (session_id (sr_params request)) of
             Inl x \<Rightarrow> (Inl x, s1)
           | Inr response_text \<Rightarrow>
               (let agent_response = Message Agent [TextPart response_text] in
                case logger_call ''info'' of
                  Inl x \<Rightarrow> (Inl x, s1)
                | Inr _ \<Rightarrow>
                    (let s2 = save_response task agent_response (now_completed e) s1
                     in (Inr \<lparr>resp_id = IdStr (uuid_response_id e), result = Some task,
                              error = None\<rparr>,
                         s2)))))"

section \<open>server/server.py: A2AServer\<close>

text \<open>
  \<open>jsonable_encoder\<close>: the part that matters here renders each datetime object as a
  string, with the library's ISO-8601 format, the parameter \<open>isoformat\<close>.
\<close>

primrec jsonable_encoder :: "(datetime \<Rightarrow> string) \<Rightarrow> json \<Rightarrow> json" where
  "jsonable_encoder isoformat JNull = JNull"
| "jsonable_encoder isoformat (JBool b) = JBool b"
| "jsonable_encoder isoformat (JInt n) = JInt n"
| "jsonable_encoder isoformat (JStr v) = JStr v"
| "jsonable_encoder isoformat (JList xs) = JList (map (jsonable_encoder isoformat) xs)"
| "jsonable_encoder isoformat (JDict kvs) = JDict (map (map_prod (\<lambda>k. k) (jsonable_encoder isoformat)) kvs)"
| "jsonable_encoder isoformat (JDatetime t) = JStr (isoformat t)"

text \<open>The body of a POST: bytes that \<open>request.json()\<close> parses, or not.\<close>

datatype http_body = Malformed | Parsed json

datatype http_response = JSONResponse (status_code: nat) (content: json)

text \<open>What the handler does: it returns a response, or an exception leaves it.\<close>

datatype outcome = Returned http_response | Raised exn

text \<open>
  \<open>create_response\<close>: every result that reaches it is a JSONRPCResponse; the status
  of a JSONResponse defaults to 200.
\<close>

definition create_response :: "(datetime \<Rightarrow> string) \<Rightarrow> memory \<Rightarrow> JSONRPCResponse \<Rightarrow> http_response" where
  "create_response isoformat s r = JSONResponse 200 (jsonable_encoder isoformat (JSONRPCResponse_dump_exclude_none s r))"

definition unsupported_method :: string where
  "unsupported_method = ''Unsupported A2A method: <class 'models.request.GetTaskRequest'>''"

text \<open>The \<open>try\<close> block of \<open>handle_request\<close>: the response it returns or the exception it raises.\<close>

definition handle_request_try ::
  "(datetime \<Rightarrow> string) \<Rightarrow> env \<Rightarrow> http_body \<Rightarrow> memory \<Rightarrow> (exn + http_response) \<times> memory" where
  "handle_request_try isoformat e body s =
     (case body of
        Malformed \<Rightarrow> (Inl JSONDecodeError, s)
      | Parsed b \<Rightarrow>
          (case logger_call ''info'' of
             Inl x \<Rightarrow> (Inl x, s)
           | Inr _ \<Rightarrow>
               (case A2ARequest_validate e b of
                  None \<Rightarrow> (Inl ValidationError, s)
                | Some (SendTask json_rpc) \<Rightarrow>
                    (case on_send_task e json_rpc s of
                       (Inl x, s') \<Rightarrow> (Inl x, s')
                     | (Inr res, s') \<Rightarrow> (Inr (create_response isoformat s' res), s'))
                | Some (GetTask json_rpc) \<Rightarrow> (Inl (ValueError unsupported_method), s))))"

text \<open>
  \<open>handle_request\<close>: the \<open>except\<close> block first reads \<open>logger.errorr\<close>, then builds
  the response with status 400 from \<open>InternalError(message=str(e))\<close>.
\<close>

definition handle_request ::
  "(datetime \<Rightarrow> string) \<Rightarrow> env \<Rightarrow> http_body \<Rightarrow> memory \<Rightarrow> outcome \<times> memory" where
  "handle_request isoformat e body s =
     (case handle_request_try isoformat e body s of
        (Inr response, s') \<Rightarrow> (Returned response, s')
      | (Inl x, s') \<Rightarrow>
          (case logger_call ''errorr'' of
             Inl y \<Rightarrow> (Raised y, s')
           | Inr _ \<Rightarrow>
               (Returned
                  (JSONResponse 400
                     (JSONRPCResponse_dump s'
                        \<lparr>resp_id = IdNone, result = None, error = Some (InternalError (exn_str x))\<rparr>)),
                s')))"

section \<open>client/client.py: A2AClient.send\_task\<close>

text \<open>
  The last line of \<open>send_task\<close>, \<open>Task(**response["result"])\<close>, on the parsed body of
  the server's reply.
\<close>

definition send_task_result ::
  "(string \<Rightarrow> datetime option) \<Rightarrow> datetime \<Rightarrow> json \<Rightarrow> exn + Task" where
  "send_task_result parse now response =
     (case response of
        JDict d \<Rightarrow>
          (case map_of d ''result'' of
             None \<Rightarrow> Inl (KeyError ''result'')
           | Some (JDict kv) \<Rightarrow>
               (case Task_validate parse now (JDict kv) of
                  None \<Rightarrow> Inl ValidationError
                | Some t \<Rightarrow> Inr t)
           | Some _ \<Rightarrow> Inl (TypeError ''argument after ** must be a mapping''))
      | _ \<Rightarrow> Inl (TypeError ''indices must be integers''))"

section \<open>Runs of the task manager\<close>

text \<open>The task that a response refers to, as its receiver reads it.\<close>

definition result_task :: "(exn + JSONRPCResponse) \<times> memory \<Rightarrow> Task option" where
  "result_task x =
     (case fst x of Inl _ \<Rightarrow> None | Inr r \<Rightarrow> map_option (task_at (snd x)) (result r))"

text \<open>
  The locked sections, as the steps that calls interleave: \<open>upsert_task\<close>, the reply
  block of an \<open>on_send_task\<close> in flight (it holds the reference \<open>upsert_task\<close> gave it
  for the id), \<open>on_get_task\<close>, and a whole \<open>on_send_task\<close> that nothing interrupts.
\<close>

datatype op =
    Upsert TaskSendParams datetime
  | Save string addr Message datetime
  | Get GetTaskRequest
  | Send env SendTaskRequest

fun exec :: "op \<Rightarrow> memory \<Rightarrow> memory" where
  "exec (Upsert p now) s = snd (upsert_task p now s)"
| "exec (Save i a m now) s = save_response a m now s"
| "exec (Get r) s = snd (on_get_task r s)"
| "exec (Send e r) s = snd (on_send_task e r s)"

text \<open>
  A reply block runs on the reference its call got from \<open>upsert_task\<close>; the dict never
  drops or replaces an entry, so that reference is still the one stored under the id.
\<close>

fun op_ok :: "memory \<Rightarrow> op \<Rightarrow> bool" where
  "op_ok s (Save i a m now) = (tasks s i = Some a)"
| "op_ok s _ = True"

fun run :: "op list \<Rightarrow> memory \<Rightarrow> memory" where
  "run [] s = s"
| "run (x # xs) s = run xs (exec x s)"

fun run_ok :: "op list \<Rightarrow> memory \<Rightarrow> bool" where
  "run_ok [] s = True"
| "run_ok (x # xs) s = (op_ok s x \<and> run_ok xs (exec x s))"

text \<open>
  The shape of the memory that the operations keep: a stored task and its history list
  are allocated, and two ids never share a Task object or a history list.
\<close>

definition mem_inv :: "memory \<Rightarrow> bool" where
  "mem_inv s \<longleftrightarrow>
     (\<forall>i a. tasks s i = Some a \<longrightarrow> a < next_obj s \<and> obj_history (objs s a) < next_list s) \<and>
     (\<forall>i j a b. tasks s i = Some a \<longrightarrow> tasks s j = Some b \<longrightarrow> i \<noteq> j \<longrightarrow>
        a \<noteq> b \<and> obj_history (objs s a) \<noteq> obj_history (objs s b))"

text \<open>
  A Task object is detached when it is allocated, is not an object of the dict, and
  shares its history list with none of them.
\<close>

definition detached :: "memory \<Rightarrow> addr \<Rightarrow> bool" where
  "detached s c \<longleftrightarrow>
     c < next_obj s \<and> obj_history (objs s c) < next_list s \<and>
     (\<forall>i a. tasks s i = Some a \<longrightarrow> a \<noteq> c \<and> obj_history (objs s a) \<noteq> obj_history (objs s c))"

section \<open>Concrete inputs\<close>

definition m_query :: Message where
  "m_query = Message User [TextPart ''latest from r/golang'']"

definition params_t1 :: TaskSendParams where
  "params_t1 = \<lparr>sp_id = ''t1'', session_id = ''s1'', message = m_query,
                 sp_historyLength = None, sp_metadata = None\<rparr>"

definition request_t1 :: SendTaskRequest where
  "request_t1 = \<lparr>sr_id = IdStr ''r1'', sr_params = params_t1\<rparr>"

definition env_of :: "run_outcome \<Rightarrow> env" where
  "env_of out = \<lparr>now_submitted = 1, now_completed = 2, uuid_request_id = ''u1'',
                  uuid_session_id = ''u2'', uuid_response_id = ''u3'',
                  agent_run = (\<lambda>query session. out)\<rparr>"

text \<open>The runner answers with one event of two parts.\<close>

definition posts :: run_outcome where
  "posts = RunEvents [Event (Some (Content (Some [Part (Some ''- post A''), Part (Some ''- post B'')])))]"

definition m_reply :: Message where
  "m_reply = Message Agent [TextPart (''- post A'' @ [CHR 0x0A] @ ''- post B'')]"

text \<open>The runner raises.\<close>

definition boom :: run_outcome where
  "boom = RunRaises (AgentFailure ''model unavailable'')"

text \<open>The memory after one \<open>tasks/send\<close> for \<open>t1\<close> on an empty task manager.\<close>

definition mem_t1 :: memory where
  "mem_t1 = snd (on_send_task (env_of posts) request_t1 init_memory)"

definition get_request :: "string \<Rightarrow> int option \<Rightarrow> GetTaskRequest" where
  "get_request i n = \<lparr>gr_id = IdInt 7, gr_params = \<lparr>qp_id = i, qp_metadata = None, qp_historyLength = n\<rparr>\<rparr>"

text \<open>
  Stand-ins for the library's ISO-8601 format and parser where a concrete pair is needed:
  an instant as a tally.
\<close>

definition tally :: "datetime \<Rightarrow> string" where
  "tally t = replicate t (CHR ''I'')"


section \<open>Properties of the store\<close>

subsection \<open>upsert\_task\<close>

text \<open>
  Claim C5. \<open>upsert_task\<close> is a total function of its parameters. With no task stored
  under \<open>params.id\<close> it stores a new task with state "submitted" and history
  \<open>[params.message]\<close>; with a task stored there it appends \<open>params.message\<close> to that
  task's history and leaves id and status as they were. In both cases the reference it
  returns is the one stored under the id, read after the mutation.
\<close>

theorem upsert_task_creates_or_appends:
  "(case tasks s (sp_id p) of
      None \<Rightarrow>
        task_at (snd (upsert_task p now s)) (fst (upsert_task p now s)) =
          \<lparr>task_id = sp_id p, status = \<lparr>state = ''submitted'', timestamp = now\<rparr>,
           history = [message p]\<rparr>
    | Some a0 \<Rightarrow>
        fst (upsert_task p now s) = a0 \<and>
        task_at (snd (upsert_task p now s)) a0 =
          (task_at s a0)\<lparr>history := history (task_at s a0) @ [message p]\<rparr>) \<and>
   tasks (snd (upsert_task p now s)) (sp_id p) = Some (fst (upsert_task p now s)) \<and>
   stored (snd (upsert_task p now s)) (sp_id p) =
     Some (task_at (snd (upsert_task p now s)) (fst (upsert_task p now s)))"
  by (simp add: upsert_task_def task_at_def stored_def TaskState_SUBMITTED_def Let_def
      split: option.split)

lemma upsert_task_stored:
  "tasks (snd (upsert_task p now s)) (sp_id p) = Some (fst (upsert_task p now s))"
  by (simp add: upsert_task_def Let_def split: option.split)

lemma upsert_task_result:
  "stored (snd (upsert_task p now s)) (sp_id p) =
     Some (case stored s (sp_id p) of
             None \<Rightarrow> \<lparr>task_id = sp_id p, status = \<lparr>state = TaskState_SUBMITTED, timestamp = now\<rparr>,
                       history = [message p]\<rparr>
           | Some t \<Rightarrow> t\<lparr>history := history t @ [message p]\<rparr>)"
  by (simp add: upsert_task_def stored_def task_at_def Let_def split: option.split)

text \<open>The tasks under the other ids are as they were.\<close>

lemma upsert_task_frame:
  assumes "mem_inv s" and "j \<noteq> sp_id p"
  shows "stored (snd (upsert_task p now s)) j = stored s j"
proof (cases "tasks s (sp_id p)")
  case None
  show ?thesis
  proof (cases "tasks s j")
    case N: None
    with None assms(2) show ?thesis by (simp add: upsert_task_def stored_def Let_def)
  next
    case (Some b)
    with assms(1) have "b < next_obj s" "obj_history (objs s b) < next_list s"
      by (auto simp: mem_inv_def)
    with None Some assms(2) show ?thesis
      by (simp add: upsert_task_def stored_def task_at_def Let_def)
  qed
next
  case (Some a)
  show ?thesis
  proof (cases "tasks s j")
    case None
    with Some show ?thesis by (simp add: upsert_task_def stored_def)
  next
    case S: (Some b)
    with Some assms have "obj_history (objs s b) \<noteq> obj_history (objs s a)"
      unfolding mem_inv_def by metis
    with Some S show ?thesis
      by (simp add: upsert_task_def stored_def task_at_def)
  qed
qed

subsection \<open>on\_send\_task\<close>

lemma logger_call_info: "logger_call ''info'' = Inr ()"
  by (simp add: logger_call_def Logger_methods_def)

lemma logger_call_errorr:
  "logger_call ''errorr'' = Inl (AttributeError ''Logger object has no attribute errorr'')"
  by (simp add: logger_call_def Logger_methods_def)

lemma on_send_task_ok:
  assumes "get_user_query r = Inr q"
      and "invoke (agent_run e) q (session_id (sr_params r)) = Inr txt"
  shows "on_send_task e r s =
           (Inr \<lparr>resp_id = IdStr (uuid_response_id e),
                 result = Some (fst (upsert_task (sr_params r) (now_submitted e) s)), error = None\<rparr>,
            save_response (fst (upsert_task (sr_params r) (now_submitted e) s))
              (Message Agent [TextPart txt]) (now_completed e)
              (snd (upsert_task (sr_params r) (now_submitted e) s)))"
  using assms by (simp add: on_send_task_def logger_call_info Let_def split: prod.split)

lemma on_send_task_raises:
  assumes "get_user_query r = Inr q"
      and "invoke (agent_run e) q (session_id (sr_params r)) = Inl x"
  shows "on_send_task e r s = (Inl x, snd (upsert_task (sr_params r) (now_submitted e) s))"
  using assms by (simp add: on_send_task_def Let_def split: prod.split)

text \<open>
  A send for an id not yet stored, with a message that has a part and an agent that
  answers: the task handed back has the two messages in order, and the state is the
  literal that \<open>on_send_task\<close> writes.
\<close>

lemma on_send_task_fresh:
  assumes "tasks s (sp_id (sr_params r)) = None"
      and "get_user_query r = Inr q"
      and "invoke (agent_run e) q (session_id (sr_params r)) = Inr txt"
  shows "result_task (on_send_task e r s) =
           Some \<lparr>task_id = sp_id (sr_params r),
                 status = \<lparr>state = ''COMPLETED'', timestamp = now_completed e\<rparr>,
                 history = [message (sr_params r), Message Agent [TextPart txt]]\<rparr>"
  using assms
  by (simp add: on_send_task_ok [OF assms(2,3)] result_task_def upsert_task_def
      save_response_def task_at_def Let_def)

lemma query_t1: "get_user_query request_t1 = Inr ''latest from r/golang''"
  by (simp add: get_user_query_def request_t1_def params_t1_def m_query_def)

lemma invoke_posts:
  "invoke (agent_run (env_of posts)) q ss = Inr (''- post A'' @ [CHR 0x0A] @ ''- post B'')"
  by (simp add: invoke_def env_of_def posts_def)

lemma invoke_raises: "f q ss = RunRaises x \<Longrightarrow> invoke f q ss = Inl x"
  by (simp add: invoke_def)

lemma invoke_fallback: "f q ss = RunEvents [] \<Longrightarrow> invoke f q ss = Inr ''No response from agent''"
  by (simp add: invoke_def)

text \<open>
  Claim C2, on the code. The first \<open>tasks/send\<close> for \<open>t1\<close>, with the agent answering two
  posts, returns the task with the query and then the reply in its history; its state is
  \<open>"COMPLETED"\<close>, which is not the value \<open>"completed"\<close> of \<open>TaskState.COMPLETED\<close>.
\<close>

theorem send_fresh_task_state_is_uppercase:
  "result_task (on_send_task (env_of posts) request_t1 init_memory) =
     Some \<lparr>task_id = ''t1'', status = \<lparr>state = ''COMPLETED'', timestamp = 2\<rparr>,
           history = [m_query, m_reply]\<rparr> \<and>
   ''COMPLETED'' \<noteq> TaskState_COMPLETED \<and> TaskState_COMPLETED = ''completed''"
proof -
  have "tasks init_memory (sp_id (sr_params request_t1)) = None"
    by (simp add: init_memory_def)
  from on_send_task_fresh [OF this query_t1 invoke_posts]
  show ?thesis
    by (simp add: request_t1_def params_t1_def env_of_def m_reply_def TaskState_COMPLETED_def)
qed

lemma mem_t1_eq:
  "stored mem_t1 ''t1'' =
     Some \<lparr>task_id = ''t1'', status = \<lparr>state = ''COMPLETED'', timestamp = 2\<rparr>,
           history = [m_query, m_reply]\<rparr> \<and>
   tasks mem_t1 ''t1'' = Some 0"
  unfolding mem_t1_def on_send_task_ok [OF query_t1 invoke_posts]
  by (simp add: upsert_task_def init_memory_def request_t1_def params_t1_def
      save_response_def stored_def task_at_def m_reply_def Let_def env_of_def)

lemma mem_inv_init: "mem_inv init_memory"
  by (simp add: mem_inv_def init_memory_def)

text \<open>A send that the agent answers: the task handed back is completed with the answer last.\<close>

lemma on_send_task_answered:
  assumes "get_user_query r = Inr q"
      and "invoke (agent_run e) q (session_id (sr_params r)) = Inr txt"
  shows "map_option (\<lambda>t. (state (status t), last (history t))) (result_task (on_send_task e r s)) =
           Some (''COMPLETED'', Message Agent [TextPart txt])"
  by (simp add: on_send_task_ok [OF assms] result_task_def save_response_def task_at_def Let_def)

text \<open>
  Claim C7, as the code has it. When the agent's runner raises, \<open>on_send_task\<close> raises
  that same exception and the store is what \<open>upsert_task\<close> left: under the id of the
  request the incoming message is recorded (a new task in state "submitted", or the
  stored task with the message appended and its status untouched), and the task under
  every other id is as it was. When the runner yields no event, \<open>on_send_task\<close> returns
  a response whose task is in state "COMPLETED", with the fallback text of \<open>invoke\<close> as
  the agent's reply.
\<close>

theorem resolve_failure_outcomes:
  assumes "mem_inv s"
      and "get_user_query r = Inr q"
      and "agent_run e q (session_id (sr_params r)) = RunRaises x"
      and "agent_run e' q (session_id (sr_params r)) = RunEvents []"
  shows "fst (on_send_task e r s) = Inl x \<and>
         stored (snd (on_send_task e r s)) (sp_id (sr_params r)) =
           Some (case stored s (sp_id (sr_params r)) of
                   None \<Rightarrow> \<lparr>task_id = sp_id (sr_params r),
                             status = \<lparr>state = TaskState_SUBMITTED, timestamp = now_submitted e\<rparr>,
                             history = [message (sr_params r)]\<rparr>
                 | Some t \<Rightarrow> t\<lparr>history := history t @ [message (sr_params r)]\<rparr>) \<and>
         (\<forall>j. j \<noteq> sp_id (sr_params r) \<longrightarrow> stored (snd (on_send_task e r s)) j = stored s j) \<and>
         map_option (\<lambda>t. (state (status t), last (history t))) (result_task (on_send_task e' r s)) =
           Some (''COMPLETED'', Message Agent [TextPart ''No response from agent''])"
proof -
  have "invoke (agent_run e) q (session_id (sr_params r)) = Inl x"
    using assms(3) by (rule invoke_raises)
  from on_send_task_raises [OF assms(2) this] assms(1)
  have "fst (on_send_task e r s) = Inl x \<and>
         stored (snd (on_send_task e r s)) (sp_id (sr_params r)) =
           Some (case stored s (sp_id (sr_params r)) of
                   None \<Rightarrow> \<lparr>task_id = sp_id (sr_params r),
                             status = \<lparr>state = TaskState_SUBMITTED, timestamp = now_submitted e\<rparr>,
                             history = [message (sr_params r)]\<rparr>
                 | Some t \<Rightarrow> t\<lparr>history := history t @ [message (sr_params r)]\<rparr>) \<and>
         (\<forall>j. j \<noteq> sp_id (sr_params r) \<longrightarrow> stored (snd (on_send_task e r s)) j = stored s j)"
    by (simp add: upsert_task_result upsert_task_frame)
  moreover have "invoke (agent_run e') q (session_id (sr_params r)) = Inr ''No response from agent''"
    using assms(4) by (rule invoke_fallback)
  note on_send_task_answered [OF assms(2) this, of s]
  ultimately show ?thesis by blast
qed

text \<open>
  The theorem at the first send for \<open>t1\<close> on an empty task manager. With a runner that
  raises, the exception comes out, \<open>t1\<close> holds the query in state "submitted", and
  \<open>t2\<close> is still absent. With a runner that yields no event, the task comes back
  completed with the fallback text.
\<close>

theorem resolve_failure_outcomes_witness:
  "mem_inv init_memory \<and> get_user_query request_t1 = Inr ''latest from r/golang'' \<and>
   agent_run (env_of boom) ''latest from r/golang'' (session_id (sr_params request_t1)) = boom \<and>
   agent_run (env_of (RunEvents [])) ''latest from r/golang'' (session_id (sr_params request_t1)) =
     RunEvents [] \<and>
   fst (on_send_task (env_of boom) request_t1 init_memory) = Inl (AgentFailure ''model unavailable'') \<and>
   stored (snd (on_send_task (env_of boom) request_t1 init_memory)) ''t1'' =
     Some \<lparr>task_id = ''t1'', status = \<lparr>state = ''submitted'', timestamp = 1\<rparr>, history = [m_query]\<rparr> \<and>
   stored (snd (on_send_task (env_of boom) request_t1 init_memory)) ''t2'' = None \<and>
   map_option (\<lambda>t. (state (status t), last (history t)))
     (result_task (on_send_task (env_of (RunEvents [])) request_t1 init_memory)) =
     Some (''COMPLETED'', Message Agent [TextPart ''No response from agent''])"
proof -
  have r: "agent_run (env_of boom) ''latest from r/golang'' (session_id (sr_params request_t1)) =
           RunRaises (AgentFailure ''model unavailable'')"
    by (simp add: env_of_def boom_def)
  have r': "agent_run (env_of (RunEvents [])) ''latest from r/golang''
              (session_id (sr_params request_t1)) = RunEvents []"
    by (simp add: env_of_def)
  have p: "sp_id (sr_params request_t1) = ''t1''" "message (sr_params request_t1) = m_query"
    by (simp_all add: request_t1_def params_t1_def)
  have e: "now_submitted (env_of boom) = 1"
    by (simp add: env_of_def)
  have s0: "stored init_memory ''t1'' = None" "stored init_memory ''t2'' = None"
    by (simp_all add: stored_def init_memory_def)
  from resolve_failure_outcomes [OF mem_inv_init query_t1 r r'] show ?thesis
    by (simp add: mem_inv_init query_t1 p e s0 TaskState_SUBMITTED_def boom_def [symmetric]
        r [unfolded boom_def [symmetric]] r')
qed

text \<open>
  Claim C7 as stated fails where the runner yields nothing usable: with no event,
  \<open>invoke\<close> returns its fallback text, and \<open>on_send_task\<close> returns a response whose
  task is in state "COMPLETED" with that text as the agent's reply.
\<close>

theorem no_events_completes_task:
  "result_task (on_send_task (env_of (RunEvents [])) request_t1 init_memory) =
     Some \<lparr>task_id = ''t1'', status = \<lparr>state = ''COMPLETED'', timestamp = 2\<rparr>,
           history = [m_query, Message Agent [TextPart ''No response from agent'']]\<rparr>"
proof -
  have n: "tasks init_memory (sp_id (sr_params request_t1)) = None"
    by (simp add: init_memory_def)
  have i: "invoke (agent_run (env_of (RunEvents []))) ''latest from r/golang''
             (session_id (sr_params request_t1)) = Inr ''No response from agent''"
    by (simp add: invoke_def env_of_def)
  from on_send_task_fresh [OF n query_t1 i] show ?thesis
    by (simp add: request_t1_def params_t1_def env_of_def)
qed

subsection \<open>on\_get\_task\<close>

text \<open>The three shapes of \<open>history[-n:]\<close>.\<close>

lemma slice_from_last: "0 < n \<Longrightarrow> slice_from (- n) xs = drop (length xs - nat n) xs"
  by (auto simp: slice_from_def Let_def max_def nat_diff_distrib' intro: arg_cong)

lemma slice_from_beyond: "int (length xs) \<le> n \<Longrightarrow> slice_from (- n) xs = xs"
  by (auto simp: slice_from_def Let_def max_def)

lemma slice_from_zero: "slice_from (- 0) xs = xs"
  by (simp add: slice_from_def)

text \<open>A read of a stored task hands back a copy with the history sliced, or whole.\<close>

lemma on_get_task_hit:
  "tasks s (qp_id (gr_params r)) = Some a \<Longrightarrow>
   result_task (on_get_task r s) =
     Some ((task_at s a)\<lparr>history := (case qp_historyLength (gr_params r) of
                                        None \<Rightarrow> history (task_at s a)
                                      | Some n \<Rightarrow> slice_from (- n) (history (task_at s a)))\<rparr>)"
  by (simp add: on_get_task_def result_task_def GetTaskResponse_def task_at_def Let_def
      split: option.split)

text \<open>A read of an id that is not stored raises, whatever the store holds.\<close>

lemma on_get_task_miss:
  "tasks s (qp_id (gr_params r)) = None \<Longrightarrow> on_get_task r s = (Inl ValidationError, s)"
  by (simp add: on_get_task_def GetTaskResponse_def JSONRPCError_validate_def)

text \<open>
  Claim C4, on the code. On the task \<open>t1\<close> with its two messages, a read with
  \<open>historyLength = 0\<close> hands back both messages, not the empty history: \<open>history[-0:]\<close>
  is the whole list. The other cases are as claimed: 1 gives the last message, 5 and an
  omitted \<open>historyLength\<close> give both.
\<close>

theorem history_length_zero_returns_full_history:
  "map_option history (result_task (on_get_task (get_request ''t1'' (Some 0)) mem_t1)) =
     Some [m_query, m_reply] \<and>
   map_option history (result_task (on_get_task (get_request ''t1'' (Some 1)) mem_t1)) =
     Some [m_reply] \<and>
   map_option history (result_task (on_get_task (get_request ''t1'' (Some 5)) mem_t1)) =
     Some [m_query, m_reply] \<and>
   map_option history (result_task (on_get_task (get_request ''t1'' None) mem_t1)) =
     Some [m_query, m_reply]"
proof -
  have t: "tasks mem_t1 (qp_id (gr_params (get_request ''t1'' n))) = Some 0" for n
    by (simp add: mem_t1_eq get_request_def)
  have "task_at mem_t1 0 =
          \<lparr>task_id = ''t1'', status = \<lparr>state = ''COMPLETED'', timestamp = 2\<rparr>,
           history = [m_query, m_reply]\<rparr>"
    using mem_t1_eq by (auto simp: stored_def)
  then show ?thesis
    unfolding on_get_task_hit [OF t] by (simp add: get_request_def slice_from_def)
qed

text \<open>
  Claim C6, on the code. A read of an id never sent does not return a response: building
  the response from the dict \<open>{"message": "Task not found"}\<close> fails validation, since
  \<open>JSONRPCError\<close> requires \<open>code\<close>, and the ValidationError leaves \<open>on_get_task\<close>.
\<close>

theorem get_missing_task_raises:
  "on_get_task (get_request ''never-sent'' None) init_memory = (Inl ValidationError, init_memory) \<and>
   JSONRPCError_validate (JDict [(''message'', JStr ''Task not found'')]) = None"
  by (simp add: on_get_task_miss get_request_def init_memory_def JSONRPCError_validate_def)

subsection \<open>The shape of the memory is kept\<close>

lemma upsert_task_inv: "mem_inv s \<Longrightarrow> mem_inv (snd (upsert_task p now s))"
  unfolding mem_inv_def upsert_task_def Let_def
  by (auto split: option.split simp: less_Suc_eq; metis less_irrefl)

lemma save_response_inv: "mem_inv s \<Longrightarrow> mem_inv (save_response a m now s)"
  unfolding mem_inv_def save_response_def Let_def
  by auto

lemma on_get_task_inv: "mem_inv s \<Longrightarrow> mem_inv (snd (on_get_task r s))"
  unfolding mem_inv_def on_get_task_def Let_def
  by (auto split: option.split simp: less_Suc_eq; metis less_irrefl)

text \<open>An \<open>on_send_task\<close> ends after \<open>upsert_task\<close>, or after the reply block on its reference.\<close>

lemma on_send_task_cases:
  "snd (on_send_task e r s) = snd (upsert_task (sr_params r) (now_submitted e) s) \<or>
   (\<exists>m. snd (on_send_task e r s) =
      save_response (fst (upsert_task (sr_params r) (now_submitted e) s)) m (now_completed e)
        (snd (upsert_task (sr_params r) (now_submitted e) s)))"
  by (auto simp: on_send_task_def logger_call_info Let_def split: prod.split sum.split)

lemma on_send_task_inv: "mem_inv s \<Longrightarrow> mem_inv (snd (on_send_task e r s))"
  using on_send_task_cases [of e r s] by (auto simp: upsert_task_inv save_response_inv)

lemma exec_inv: "mem_inv s \<Longrightarrow> mem_inv (exec x s)"
  by (cases x) (simp_all add: upsert_task_inv save_response_inv on_get_task_inv on_send_task_inv)

lemma run_inv: "mem_inv s \<Longrightarrow> mem_inv (run ops s)"
  by (induction ops arbitrary: s) (simp_all add: exec_inv)

lemma mem_inv_t1: "mem_inv mem_t1"
  unfolding mem_t1_def by (rule on_send_task_inv [OF mem_inv_init])

subsection \<open>History only grows\<close>

lemma upsert_task_history:
  assumes "mem_inv s" and "stored s i = Some t"
  shows "\<exists>t' ms. stored (snd (upsert_task p now s)) i = Some t' \<and> history t' = history t @ ms"
proof (cases "i = sp_id p")
  case True
  with assms(2) show ?thesis by (simp add: upsert_task_result)
next
  case False
  with assms show ?thesis by (simp add: upsert_task_frame)
qed

lemma save_response_history:
  assumes "stored s i = Some t"
  shows "\<exists>t' ms. stored (save_response a m now s) i = Some t' \<and> history t' = history t @ ms"
proof -
  from assms obtain b where b: "tasks s i = Some b" and t: "t = task_at s b"
    by (auto simp: stored_def)
  have h: "obj_history (objs (save_response a m now s) b) = obj_history (objs s b)"
    by (simp add: save_response_def Let_def)
  have "history (task_at (save_response a m now s) b) =
          history t @ (if obj_history (objs s b) = obj_history (objs s a) then [m] else [])"
    unfolding task_at_def h t by (simp add: save_response_def Let_def)
  moreover have "stored (save_response a m now s) i = Some (task_at (save_response a m now s) b)"
    using b by (simp add: stored_def save_response_def Let_def)
  ultimately show ?thesis by blast
qed

text \<open>A read changes no stored task: the copy and its slice are new objects.\<close>

lemma on_get_task_stored:
  assumes "mem_inv s"
  shows "stored (snd (on_get_task r s)) i = stored s i"
proof (cases "tasks s i")
  case None
  then show ?thesis
    by (simp add: on_get_task_def stored_def Let_def split: option.split)
next
  case (Some b)
  with assms have "b < next_obj s" "obj_history (objs s b) < next_list s"
    by (auto simp: mem_inv_def)
  with Some show ?thesis
    by (simp add: on_get_task_def stored_def task_at_def Let_def split: option.split)
qed

lemma on_send_task_history:
  assumes "mem_inv s" and "stored s i = Some t"
  shows "\<exists>t' ms. stored (snd (on_send_task e r s)) i = Some t' \<and> history t' = history t @ ms"
proof -
  let ?u = "upsert_task (sr_params r) (now_submitted e) s"
  from upsert_task_history [OF assms] obtain t1 ms1
    where u: "stored (snd ?u) i = Some t1" "history t1 = history t @ ms1" by blast
  from on_send_task_cases [of e r s] show ?thesis
  proof
    assume "snd (on_send_task e r s) = snd ?u"
    with u show ?thesis by auto
  next
    assume "\<exists>m. snd (on_send_task e r s) = save_response (fst ?u) m (now_completed e) (snd ?u)"
    then obtain m
      where m: "snd (on_send_task e r s) = save_response (fst ?u) m (now_completed e) (snd ?u)" ..
    from save_response_history [OF u(1), of "fst ?u" m "now_completed e"] obtain t2 ms2
      where "stored (snd (on_send_task e r s)) i = Some t2" "history t2 = history t1 @ ms2"
      unfolding m by blast
    with u(2) show ?thesis by auto
  qed
qed

lemma exec_history:
  assumes "mem_inv s" and "stored s i = Some t"
  shows "\<exists>t' ms. stored (exec x s) i = Some t' \<and> history t' = history t @ ms"
proof (cases x)
  case (Upsert p now)
  with upsert_task_history [OF assms] show ?thesis by simp
next
  case (Save j a m now)
  with save_response_history [OF assms(2)] show ?thesis by simp
next
  case (Get g)
  with assms show ?thesis by (simp add: on_get_task_stored)
next
  case (Send e q)
  with on_send_task_history [OF assms] show ?thesis by simp
qed

text \<open>The same along any sequence of operations.\<close>

lemma run_history:
  assumes "mem_inv s" and "stored s i = Some t"
  shows "\<exists>t' ms. stored (run ops s) i = Some t' \<and> history t' = history t @ ms"
  using assms
proof (induction ops arbitrary: s t)
  case Nil
  then show ?case by simp
next
  case (Cons x xs)
  from exec_history [OF Cons.prems] obtain t1 ms1
    where t1: "stored (exec x s) i = Some t1" "history t1 = history t @ ms1" by blast
  from Cons.IH [OF exec_inv [OF Cons.prems(1)] t1(1)] obtain t2 ms2
    where "stored (run xs (exec x s)) i = Some t2" "history t2 = history t1 @ ms2" by blast
  with t1(2) show ?case by auto
qed

text \<open>
  Claim C8. In a memory of the shape the operations keep, every operation (an upsert, a
  reply block, a read, a whole send) leaves each stored task stored, with a history that
  extends the one it had: unchanged or longer, never shorter. A read leaves the stored
  task exactly as it was, so the slice it takes does not touch the stored history.
\<close>

theorem history_never_shrinks:
  assumes "mem_inv s" and "stored s i = Some t"
  shows "(\<exists>t' ms. stored (exec x s) i = Some t' \<and> history t' = history t @ ms) \<and>
         stored (exec (Get r) s) i = Some t"
  using exec_history [OF assms, of x] assms by (simp add: on_get_task_stored)

lemmas eval_defs =
  logger_call_info mem_t1_def on_send_task_def upsert_task_def init_memory_def request_t1_def
  params_t1_def get_user_query_def m_query_def invoke_def posts_def save_response_def stored_def
  task_at_def m_reply_def Let_def env_of_def on_get_task_def get_request_def GetTaskResponse_def
  slice_from_def

text \<open>
  The theorem at the memory after the first send for \<open>t1\<close>: a second send for \<open>t1\<close>
  extends the two messages to four, and a read with \<open>historyLength = 1\<close> leaves the
  stored task with its two messages.
\<close>

theorem history_never_shrinks_witness:
  "mem_inv mem_t1 \<and>
   stored mem_t1 ''t1'' =
     Some \<lparr>task_id = ''t1'', status = \<lparr>state = ''COMPLETED'', timestamp = 2\<rparr>,
           history = [m_query, m_reply]\<rparr> \<and>
   map_option history (stored (exec (Send (env_of posts) request_t1) mem_t1) ''t1'') =
     Some ([m_query, m_reply] @ [m_query, m_reply]) \<and>
   stored (exec (Get (get_request ''t1'' (Some 1))) mem_t1) ''t1'' =
     Some \<lparr>task_id = ''t1'', status = \<lparr>state = ''COMPLETED'', timestamp = 2\<rparr>,
           history = [m_query, m_reply]\<rparr>"
proof -
  have st: "stored mem_t1 ''t1'' =
              Some \<lparr>task_id = ''t1'', status = \<lparr>state = ''COMPLETED'', timestamp = 2\<rparr>,
                    history = [m_query, m_reply]\<rparr>"
    by (simp add: mem_t1_eq)
  have g: "map_option history (stored (exec (Send (env_of posts) request_t1) mem_t1) ''t1'') =
             Some ([m_query, m_reply] @ [m_query, m_reply])"
    by (simp add: eval_defs)
  from history_never_shrinks [OF mem_inv_t1 st, of "Send (env_of posts) request_t1"
      "get_request ''t1'' (Some 1)"] g
  show ?thesis by (simp add: mem_inv_t1 st)
qed

subsection \<open>What a caller holds\<close>

lemma upsert_task_detached:
  "mem_inv s \<Longrightarrow> detached s c \<Longrightarrow>
   detached (snd (upsert_task p now s)) c \<and> task_at (snd (upsert_task p now s)) c = task_at s c"
  unfolding mem_inv_def detached_def upsert_task_def Let_def task_at_def
  by (auto split: option.split simp: less_Suc_eq; metis less_irrefl)

lemma save_response_detached:
  "detached s c \<Longrightarrow> tasks s i = Some a \<Longrightarrow>
   detached (save_response a m now s) c \<and> task_at (save_response a m now s) c = task_at s c"
  unfolding detached_def save_response_def Let_def task_at_def
  by (auto; metis)

lemma on_get_task_detached:
  "mem_inv s \<Longrightarrow> detached s c \<Longrightarrow>
   detached (snd (on_get_task r s)) c \<and> task_at (snd (on_get_task r s)) c = task_at s c"
  unfolding mem_inv_def detached_def on_get_task_def Let_def task_at_def
  by (auto split: option.split simp: less_Suc_eq; metis less_irrefl)

lemma on_send_task_detached:
  assumes "mem_inv s" "detached s c"
  shows "detached (snd (on_send_task e r s)) c \<and> task_at (snd (on_send_task e r s)) c = task_at s c"
proof -
  let ?u = "upsert_task (sr_params r) (now_submitted e) s"
  have u: "detached (snd ?u) c \<and> task_at (snd ?u) c = task_at s c"
    using assms by (rule upsert_task_detached)
  have st: "tasks (snd ?u) (sp_id (sr_params r)) = Some (fst ?u)"
    by (rule upsert_task_stored)
  from on_send_task_cases [of e r s] show ?thesis
  proof
    assume "snd (on_send_task e r s) = snd ?u"
    with u show ?thesis by simp
  next
    assume "\<exists>m. snd (on_send_task e r s) = save_response (fst ?u) m (now_completed e) (snd ?u)"
    then obtain m
      where m: "snd (on_send_task e r s) = save_response (fst ?u) m (now_completed e) (snd ?u)" ..
    from save_response_detached [OF conjunct1 [OF u] st, of m "now_completed e"] u m
    show ?thesis by simp
  qed
qed

lemma exec_detached:
  "mem_inv s \<Longrightarrow> detached s c \<Longrightarrow> op_ok s x \<Longrightarrow>
   detached (exec x s) c \<and> task_at (exec x s) c = task_at s c"
  by (cases x)
     (simp_all add: upsert_task_detached save_response_detached on_get_task_detached
        on_send_task_detached)

lemma run_detached:
  "mem_inv s \<Longrightarrow> detached s c \<Longrightarrow> run_ok ops s \<Longrightarrow> task_at (run ops s) c = task_at s c"
proof (induction ops arbitrary: s)
  case Nil
  then show ?case by simp
next
  case (Cons x xs)
  from Cons.prems have ok: "op_ok s x" and rest: "run_ok xs (exec x s)" by simp_all
  from exec_detached [OF Cons.prems(1,2) ok]
  have d: "detached (exec x s) c" and eq: "task_at (exec x s) c = task_at s c" by simp_all
  from Cons.IH [OF exec_inv [OF Cons.prems(1)] d rest] eq show ?case by simp
qed

text \<open>The copy that a read with a \<open>historyLength\<close> hands out is detached.\<close>

lemma on_get_task_copy_detached:
  assumes "mem_inv s" "tasks s (qp_id (gr_params r)) = Some a" "qp_historyLength (gr_params r) = Some n"
  shows "fst (on_get_task r s) = Inr \<lparr>resp_id = gr_id r, result = Some (next_obj s), error = None\<rparr>"
    and "detached (snd (on_get_task r s)) (next_obj s)"
    and "next_obj s \<noteq> a"
  using assms unfolding mem_inv_def detached_def on_get_task_def Let_def GetTaskResponse_def
  by (auto simp: less_Suc_eq dest: less_imp_neq)

text \<open>A response of \<open>on_send_task\<close> refers to the object stored under the id.\<close>

lemma on_send_task_result_is_stored:
  "(case fst (on_send_task e q s) of
      Inl x \<Rightarrow> True
    | Inr response \<Rightarrow> result response = tasks (snd (on_send_task e q s)) (sp_id (sr_params q)))"
proof -
  have "tasks (save_response a m now s') = tasks s'" for a m now s'
    by (simp add: save_response_def Let_def)
  then show ?thesis
    using upsert_task_stored [of "sr_params q" "now_submitted e" s]
    by (cases "upsert_task (sr_params q) (now_submitted e) s")
       (auto simp: on_send_task_def logger_call_info Let_def split: sum.split)
qed

text \<open>
  Claim C9, as the code has it. A read of a stored task with a \<open>historyLength\<close> hands
  out a new Task object, not the stored one, with a history list of its own; whatever
  operations run on the store afterwards (upserts, reply blocks of sends in flight, reads,
  whole sends), the task that the caller holds reads as it did when it was handed out.
  A response of \<open>on_send_task\<close> holds the very reference stored under the id.
\<close>

theorem detached_read_and_stored_send:
  assumes "mem_inv s"
      and "tasks s (qp_id (gr_params r)) = Some a"
      and "qp_historyLength (gr_params r) = Some n"
      and "run_ok ops (snd (on_get_task r s))"
  shows "fst (on_get_task r s) = Inr \<lparr>resp_id = gr_id r, result = Some (next_obj s), error = None\<rparr> \<and>
         next_obj s \<noteq> a \<and>
         task_at (run ops (snd (on_get_task r s))) (next_obj s) =
           task_at (snd (on_get_task r s)) (next_obj s) \<and>
         (case fst (on_send_task e q s) of
            Inl x \<Rightarrow> True
          | Inr response \<Rightarrow> result response = tasks (snd (on_send_task e q s)) (sp_id (sr_params q)))"
  using on_get_task_copy_detached [OF assms(1-3)]
    run_detached [OF on_get_task_inv [OF assms(1)] _ assms(4), of "next_obj s"]
    on_send_task_result_is_stored [of e q s]
  by simp

lemma mem_t1_explicit:
  "mem_t1 =
     \<lparr>tasks = [''t1'' \<mapsto> 0],
      objs = (objs init_memory)
               (0 := \<lparr>obj_id = ''t1'', obj_status = \<lparr>state = ''COMPLETED'', timestamp = 2\<rparr>,
                       obj_history = 0\<rparr>),
      lists = (lists init_memory)(0 := [m_query, m_reply]), next_obj = 1, next_list = 1\<rparr>"
  by (simp add: eval_defs)

text \<open>
  The theorem at the memory after the first send for \<open>t1\<close>: the read with
  \<open>historyLength = 1\<close> hands out the new object 1 with the reply as its history; after
  a second send, a late reply block and another read, object 1 still reads the same. A
  second send for \<open>t1\<close> hands out reference 0, the one stored under \<open>t1\<close>.
\<close>

theorem detached_read_and_stored_send_witness:
  "mem_inv mem_t1 \<and> tasks mem_t1 ''t1'' = Some 0 \<and>
   qp_historyLength (gr_params (get_request ''t1'' (Some 1))) = Some 1 \<and>
   run_ok [Send (env_of posts) request_t1, Save ''t1'' 0 m_reply 9, Get (get_request ''t1'' None)]
     (snd (on_get_task (get_request ''t1'' (Some 1)) mem_t1)) \<and>
   fst (on_get_task (get_request ''t1'' (Some 1)) mem_t1) =
     Inr \<lparr>resp_id = IdInt 7, result = Some 1, error = None\<rparr> \<and>
   task_at (run [Send (env_of posts) request_t1, Save ''t1'' 0 m_reply 9, Get (get_request ''t1'' None)]
              (snd (on_get_task (get_request ''t1'' (Some 1)) mem_t1))) 1 =
     \<lparr>task_id = ''t1'', status = \<lparr>state = ''COMPLETED'', timestamp = 2\<rparr>, history = [m_reply]\<rparr> \<and>
   fst (on_send_task (env_of posts) request_t1 mem_t1) =
     Inr \<lparr>resp_id = IdStr ''u3'', result = Some 0, error = None\<rparr> \<and>
   tasks (snd (on_send_task (env_of posts) request_t1 mem_t1)) ''t1'' = Some 0"
proof -
  have t: "tasks mem_t1 (qp_id (gr_params (get_request ''t1'' (Some 1)))) = Some 0"
    by (simp add: mem_t1_eq get_request_def)
  have n: "qp_historyLength (gr_params (get_request ''t1'' (Some 1))) = Some 1"
    by (simp add: get_request_def)
  have ok: "run_ok [Send (env_of posts) request_t1, Save ''t1'' 0 m_reply 9, Get (get_request ''t1'' None)]
     (snd (on_get_task (get_request ''t1'' (Some 1)) mem_t1))"
    by (simp add: eval_defs)
  have nx: "next_obj mem_t1 = 1" by (simp add: mem_t1_explicit)
  have v: "task_at (snd (on_get_task (get_request ''t1'' (Some 1)) mem_t1)) 1 =
     \<lparr>task_id = ''t1'', status = \<lparr>state = ''COMPLETED'', timestamp = 2\<rparr>, history = [m_reply]\<rparr>"
    by (simp add: eval_defs)
  have g: "gr_id (get_request ''t1'' (Some 1)) = IdInt 7"
    by (simp add: get_request_def)
  have sd: "fst (on_send_task (env_of posts) request_t1 mem_t1) =
              Inr \<lparr>resp_id = IdStr ''u3'', result = Some 0, error = None\<rparr>"
           "tasks (snd (on_send_task (env_of posts) request_t1 mem_t1)) ''t1'' = Some 0"
    by (simp_all add: eval_defs)
  from detached_read_and_stored_send [OF mem_inv_t1 t n ok, of "env_of posts" request_t1] v sd
  show ?thesis
    by (simp add: mem_inv_t1 mem_t1_eq ok nx g n del: run.simps run_ok.simps)
qed

text \<open>
  Claim C9 as stated fails for \<open>on_send_task\<close> and for a read without \<open>historyLength\<close>.
  The first send for \<open>t1\<close> hands out reference 0, which is the object stored under
  \<open>t1\<close>: after a second send that same reference reads four messages instead of two.
  A read without \<open>historyLength\<close> hands out the new object 1, which shares the stored
  history list: after a second send it reads four messages too.
\<close>

theorem send_task_hands_out_stored_object:
  "fst (on_send_task (env_of posts) request_t1 init_memory) =
     Inr \<lparr>resp_id = IdStr ''u3'', result = Some 0, error = None\<rparr> \<and>
   tasks mem_t1 ''t1'' = Some 0 \<and>
   history (task_at mem_t1 0) = [m_query, m_reply] \<and>
   history (task_at (exec (Send (env_of posts) request_t1) mem_t1) 0) =
     [m_query, m_reply, m_query, m_reply] \<and>
   fst (on_get_task (get_request ''t1'' None) mem_t1) =
     Inr \<lparr>resp_id = IdInt 7, result = Some 1, error = None\<rparr> \<and>
   history (task_at (snd (on_get_task (get_request ''t1'' None) mem_t1)) 1) = [m_query, m_reply] \<and>
   history (task_at (exec (Send (env_of posts) request_t1)
                      (snd (on_get_task (get_request ''t1'' None) mem_t1))) 1) =
     [m_query, m_reply, m_query, m_reply]"
  by (simp add: eval_defs)

section \<open>Properties of the wire forms\<close>


lemma those_map_inverse:
  assumes "\<And>x. v (g x) = Some x"
  shows "those (map v (map g xs)) = Some xs"
  by (induction xs) (simp_all add: assms)

lemma TextPart_roundtrip:
  "TextPart_validate (jsonable_encoder f (TextPart_dump p)) = Some p"
  by (simp add: TextPart_validate_def TextPart_dump_def literal_field_def str_field_def)

lemma Message_roundtrip:
  "Message_validate (jsonable_encoder f (Message_dump m)) = Some m"
proof -
  have "those (map TextPart_validate (map (\<lambda>p. jsonable_encoder f (TextPart_dump p)) (msg_parts m))) =
          Some (msg_parts m)"
    by (rule those_map_inverse) (rule TextPart_roundtrip)
  then show ?thesis
    by (cases m; cases "msg_role m")
       (simp_all add: Message_validate_def Message_dump_def role_dump_def role_validate_def
          list_validate_def comp_def)
qed

lemma history_roundtrip:
  "those (map Message_validate (map (\<lambda>m. jsonable_encoder f (Message_dump m)) ms)) = Some ms"
  by (rule those_map_inverse) (rule Message_roundtrip)

lemma TaskStatus_roundtrip:
  assumes "parse (f (timestamp st)) = Some (timestamp st)"
  shows "TaskStatus_validate parse now (jsonable_encoder f (TaskStatus_dump st)) = Some st"
  using assms
  by (simp add: TaskStatus_validate_def TaskStatus_dump_def str_field_def datetime_validate_def)



text \<open>
  End to end: what the client's \<open>send_task\<close> reads from the body that
  \<open>create_response\<close> builds is the task that the response refers to.
\<close>

lemma send_task_result_roundtrip:
  assumes "result r = Some a"
      and "parse (f (timestamp (status (task_at s a)))) = Some (timestamp (status (task_at s a)))"
  shows "send_task_result parse now (content (create_response f s r)) = Inr (task_at s a)"
proof -
  have d: "\<exists>kv. jsonable_encoder f (Task_dump (task_at s a)) = JDict kv"
    by (simp add: Task_dump_def)
  then obtain kv where kv: "jsonable_encoder f (Task_dump (task_at s a)) = JDict kv" ..
  have "Task_validate parse now (jsonable_encoder f (Task_dump (task_at s a))) = Some (task_at s a)"
    using history_roundtrip [of f "history (task_at s a)"]
      TaskStatus_roundtrip [of parse f "status (task_at s a)" now, OF assms(2)]
    by (simp add: Task_validate_def Task_dump_def str_field_def list_validate_def comp_def)
  with kv have "Task_validate parse now (JDict kv) = Some (task_at s a)"
    by simp
  with kv assms(1) show ?thesis
    by (cases "resp_id r"; cases "error r")
       (simp_all add: send_task_result_def create_response_def JSONRPCResponse_dump_exclude_none_def)
qed

section \<open>Properties of the handler\<close>

text \<open>The wire form of a \<open>tasks/get\<close> request resolves to that request.\<close>

lemma GetTaskRequest_roundtrip:
  "A2ARequest_validate e (GetTaskRequest_dump r) = Some (GetTask r)"
  by (cases "gr_id r"; cases "qp_metadata (gr_params r)"; cases "qp_historyLength (gr_params r)")
     (simp_all add: A2ARequest_validate_def GetTaskRequest_dump_def GetTaskRequest_validate_def
        TaskQueryParams_validate_def TaskQueryParams_dump_def literal_field_def rpc_id_validate_def
        rpc_id_dump_def str_field_def opt_dict_field_def opt_int_field_def opt_dump_def)

text \<open>
  Whatever the \<open>try\<close> block raises, the \<open>except\<close> block raises AttributeError at
  \<open>logger.errorr\<close> and builds no response.
\<close>

lemma handle_request_failure:
  assumes "fst (handle_request_try f e body s) = Inl x"
  shows "handle_request f e body s =
           (Raised (AttributeError ''Logger object has no attribute errorr''),
            snd (handle_request_try f e body s))"
  using assms
  by (cases "handle_request_try f e body s") (simp add: handle_request_def logger_call_errorr)

lemma handle_request_never_400:
  "fst (handle_request f e body s) \<noteq> Returned (JSONResponse 400 c)"
  by (auto simp: handle_request_def handle_request_try_def logger_call_errorr logger_call_info
      create_response_def split: prod.split sum.split http_body.split option.split A2ARequest.split)

text \<open>
  Claim C1, as the code has it. A body that validation resolves to the GetTaskRequest
  shape is not handed to \<open>on_get_task\<close>: the \<open>try\<close> block of the handler raises
  ValueError "Unsupported A2A method" for it and leaves the memory as it was. The wire
  form of every GetTaskRequest is such a body.
\<close>

theorem tasks_get_is_rejected_by_handler:
  assumes "A2ARequest_validate e b = Some (GetTask r)"
  shows "handle_request_try f e (Parsed b) s = (Inl (ValueError unsupported_method), s) \<and>
         A2ARequest_validate e (GetTaskRequest_dump r) = Some (GetTask r)"
  using assms by (simp add: handle_request_try_def logger_call_info GetTaskRequest_roundtrip)

text \<open>The theorem at a \<open>tasks/get\<close> for the stored task \<open>t1\<close>.\<close>

theorem tasks_get_is_rejected_by_handler_witness:
  "A2ARequest_validate (env_of posts) (GetTaskRequest_dump (get_request ''t1'' None)) =
     Some (GetTask (get_request ''t1'' None)) \<and>
   handle_request_try tally (env_of posts) (Parsed (GetTaskRequest_dump (get_request ''t1'' None))) mem_t1 =
     (Inl (ValueError unsupported_method), mem_t1)"
  using tasks_get_is_rejected_by_handler
    [where e = "env_of posts" and b = "GetTaskRequest_dump (get_request ''t1'' None)"
      and r = "get_request ''t1'' None" and f = tally and s = mem_t1, OF GetTaskRequest_roundtrip]
  by simp

text \<open>
  Claim C1 as stated fails at a \<open>tasks/get\<close> for the stored task \<open>t1\<close>: the body
  resolves to the GetTaskRequest, \<open>on_get_task\<close> would return the task, and the handler
  returns no response at all.
\<close>

theorem tasks_get_never_reaches_on_get_task:
  "A2ARequest_validate (env_of posts) (GetTaskRequest_dump (get_request ''t1'' None)) =
     Some (GetTask (get_request ''t1'' None)) \<and>
   result_task (on_get_task (get_request ''t1'' None) mem_t1) =
     Some \<lparr>task_id = ''t1'', status = \<lparr>state = ''COMPLETED'', timestamp = 2\<rparr>,
           history = [m_query, m_reply]\<rparr> \<and>
   handle_request tally (env_of posts) (Parsed (GetTaskRequest_dump (get_request ''t1'' None))) mem_t1 =
     (Raised (AttributeError ''Logger object has no attribute errorr''), mem_t1)"
proof -
  have t: "tasks mem_t1 (qp_id (gr_params (get_request ''t1'' None))) = Some 0"
    by (simp add: mem_t1_eq get_request_def)
  have a: "task_at mem_t1 0 =
             \<lparr>task_id = ''t1'', status = \<lparr>state = ''COMPLETED'', timestamp = 2\<rparr>,
              history = [m_query, m_reply]\<rparr>"
    using mem_t1_eq by (auto simp: stored_def)
  have g: "result_task (on_get_task (get_request ''t1'' None) mem_t1) =
             Some \<lparr>task_id = ''t1'', status = \<lparr>state = ''COMPLETED'', timestamp = 2\<rparr>,
                   history = [m_query, m_reply]\<rparr>"
    unfolding on_get_task_hit [OF t] by (simp add: a get_request_def)
  have h: "handle_request_try tally (env_of posts)
             (Parsed (GetTaskRequest_dump (get_request ''t1'' None))) mem_t1 =
           (Inl (ValueError unsupported_method), mem_t1)"
    by (simp add: handle_request_try_def logger_call_info GetTaskRequest_roundtrip)
  show ?thesis
    using handle_request_failure [of tally "env_of posts"
        "Parsed (GetTaskRequest_dump (get_request ''t1'' None))" mem_t1]
    by (simp add: GetTaskRequest_roundtrip g h)
qed

text \<open>
  Claim C3, on the code. A body that is not JSON, a body without \<open>method\<close>, and a
  \<open>tasks/send\<close> whose agent raises: in each case the handler returns no response with
  status 400; AttributeError leaves it at \<open>logger.errorr\<close>. (In the third case the
  incoming message has been stored by then.)
\<close>

theorem failed_request_raises_instead_of_400:
  "handle_request f e Malformed s =
     (Raised (AttributeError ''Logger object has no attribute errorr''), s) \<and>
   handle_request f e (Parsed (JDict [(''jsonrpc'', JStr ''2.0''), (''id'', JInt 1)])) s =
     (Raised (AttributeError ''Logger object has no attribute errorr''), s) \<and>
   handle_request f (env_of boom) (Parsed (SendTaskRequest_dump request_t1)) init_memory =
     (Raised (AttributeError ''Logger object has no attribute errorr''),
      snd (upsert_task params_t1 1 init_memory))"
proof -
  have v: "A2ARequest_validate (env_of boom) (SendTaskRequest_dump request_t1) = Some (SendTask request_t1)"
    by (simp add: A2ARequest_validate_def SendTaskRequest_dump_def SendTaskRequest_validate_def
        TaskSendParams_validate_def TaskSendParams_dump_def literal_field_def rpc_id_validate_def
        rpc_id_dump_def str_field_def opt_dict_field_def opt_int_field_def opt_dump_def
        request_t1_def params_t1_def m_query_def Message_validate_def Message_dump_def
        role_dump_def role_validate_def list_validate_def TextPart_validate_def TextPart_dump_def)
  have i: "invoke (agent_run (env_of boom)) ''latest from r/golang'' (session_id (sr_params request_t1)) =
             Inl (AgentFailure ''model unavailable'')"
    by (simp add: invoke_def env_of_def boom_def)
  have t: "handle_request_try f (env_of boom) (Parsed (SendTaskRequest_dump request_t1)) init_memory =
             (Inl (AgentFailure ''model unavailable''), snd (upsert_task params_t1 1 init_memory))"
    by (simp add: handle_request_try_def logger_call_info v on_send_task_raises [OF query_t1 i])
       (simp add: request_t1_def env_of_def)
  show ?thesis
    using handle_request_failure [of f "env_of boom" "Parsed (SendTaskRequest_dump request_t1)" init_memory]
    by (simp add: t)
       (simp add: handle_request_def handle_request_try_def logger_call_errorr logger_call_info
          A2ARequest_validate_def)
qed

end
